theory Spec2Isabelle
  imports Main
begin

section \<open>Values and exceptions\<close>

text \<open>
  The exceptions that can be raised while a page is fetched: selenium's
  \<open>TimeoutException\<close> and \<open>NoSuchElementException\<close>, the \<open>TypeError\<close> of a
  comparison between values of unrelated types, any other instance of Python's
  \<open>Exception\<close>, kept with its description, and the two exceptions that are instances
  of \<open>BaseException\<close> only, which \<open>except Exception\<close> does not catch.
\<close>

datatype exn =
    TimeoutException
  | NoSuchElementException
  | TypeError
  | OtherException string
  | KeyboardInterrupt
  | SystemExit

text \<open>\<open>isinstance(e, Exception)\<close>.\<close>

fun is_Exception :: "exn \<Rightarrow> bool" where
  "is_Exception KeyboardInterrupt = False"
| "is_Exception SystemExit = False"
| "is_Exception _ = True"

text \<open>
  What \<open>driver.execute_script\<close> hands back for a JavaScript value: \<open>None\<close>, a
  \<open>bool\<close>, an \<open>int\<close> or a \<open>str\<close>. The heights the helper asks for are
  integers and the ready-state is a string.
\<close>

datatype jsval = JNone | JBool bool | JInt int | JStr string

text \<open>The values stored in the report dictionaries and handed to \<open>print\<close>.\<close>

datatype pyval =
    PNone
  | PBool bool
  | PInt int
  | PStr string
  | PDatetime nat
  | PException exn

type_synonym pydict = "(string \<times> pyval) list"

text \<open>Python's \<open>a > b\<close> on two strings: lexicographic on the code points.\<close>

fun str_gt :: "string \<Rightarrow> string \<Rightarrow> bool" where
  "str_gt [] ys = False"
| "str_gt (x # xs) [] = True"
| "str_gt (x # xs) (y # ys) =
     (if (of_char y :: nat) < of_char x then True
      else if (of_char x :: nat) < of_char y then False
      else str_gt xs ys)"

text \<open>
  Python's \<open>a > b\<close> on the values of a script evaluation: numbers compare as numbers
  (\<open>bool\<close> is a subclass of \<open>int\<close>), strings as strings, anything else raises
  \<open>TypeError\<close>.
\<close>

fun py_gt :: "jsval \<Rightarrow> jsval \<Rightarrow> exn + bool" where
  "py_gt (JInt a) (JInt b) = Inr (b < a)"
| "py_gt (JInt a) (JBool b) = Inr ((if b then 1 else 0) < a)"
| "py_gt (JBool a) (JInt b) = Inr (b < (if a then 1 else 0))"
| "py_gt (JBool a) (JBool b) = Inr (a \<and> \<not> b)"
| "py_gt (JStr a) (JStr b) = Inr (str_gt a b)"
| "py_gt _ _ = Inl TypeError"

section \<open>The browser session and the console\<close>

text \<open>
  A browser session is a state machine with a state of type \<open>'b\<close>. Each of the three
  operations the helper uses answers with an exception or a value, the time it took
  (in milliseconds) and the next state of the browser. Every operation answers: a
  call that never comes back is outside this model.

  The session also tells which released loop of selenium's \<open>WebDriverWait.until\<close> it
  runs: the one that sleeps before it looks at the clock, or the one that looks at
  the clock before it sleeps.
\<close>

record 'b driver =
  drv_get :: "string \<Rightarrow> 'b \<Rightarrow> (exn + unit) \<times> nat \<times> 'b"
  drv_execute_script :: "string \<Rightarrow> 'b \<Rightarrow> (exn + jsval) \<times> nat \<times> 'b"
  drv_page_source :: "'b \<Rightarrow> (exn + string) \<times> nat \<times> 'b"
  drv_wait_sleeps_first :: bool

datatype command = Get string | ExecuteScript string | PageSource

text \<open>
  The world the helper runs in: the clock (milliseconds; it stands for both
  \<open>time.monotonic()\<close> and \<open>datetime.now()\<close>), the commands sent to the browser so
  far, oldest first, the browser's state, the lines printed so far, each as the list
  of the values printed, and the standard output: given the lines printed so far and
  a new line, it accepts the line or raises.
\<close>

record 'b world =
  clock :: nat
  issued :: "command list"
  browser :: 'b
  console :: "pyval list list"
  stdout :: "pyval list list \<Rightarrow> pyval list \<Rightarrow> exn option"

definition get :: "'b driver \<Rightarrow> string \<Rightarrow> 'b world \<Rightarrow> (exn + unit) \<times> 'b world" where
  "get drv url w =
     (case drv_get drv url (browser w) of
        (r, d, b) \<Rightarrow>
          (r, w\<lparr>clock := clock w + d, issued := issued w @ [Get url], browser := b\<rparr>))"

definition execute_script ::
  "'b driver \<Rightarrow> string \<Rightarrow> 'b world \<Rightarrow> (exn + jsval) \<times> 'b world" where
  "execute_script drv script w =
     (case drv_execute_script drv script (browser w) of
        (r, d, b) \<Rightarrow>
          (r, w\<lparr>clock := clock w + d, issued := issued w @ [ExecuteScript script],
                browser := b\<rparr>))"

definition page_source :: "'b driver \<Rightarrow> 'b world \<Rightarrow> (exn + string) \<times> 'b world" where
  "page_source drv w =
     (case drv_page_source drv (browser w) of
        (r, d, b) \<Rightarrow>
          (r, w\<lparr>clock := clock w + d, issued := issued w @ [PageSource], browser := b\<rparr>))"

text \<open>\<open>time.sleep(seconds)\<close>, with the argument in milliseconds.\<close>

definition time_sleep :: "nat \<Rightarrow> 'b world \<Rightarrow> (exn + unit) \<times> 'b world" where
  "time_sleep ms w = (Inr (), w\<lparr>clock := clock w + ms\<rparr>)"

text \<open>
  \<open>print(...)\<close>: the line is written when the standard output accepts it; otherwise
  the exception of the standard output is raised and nothing is written. The parts
  of an f-string are given as the values they are built from.
\<close>

definition py_print :: "pyval list \<Rightarrow> 'b world \<Rightarrow> (exn + unit) \<times> 'b world" where
  "py_print objects w =
     (case stdout w (console w) objects of
        None \<Rightarrow> (Inr (), w\<lparr>console := console w @ [objects]\<rparr>)
      | Some e \<Rightarrow> (Inl e, w))"

text \<open>
  Sequencing of two statements: an exception of the first ends the block, with the
  world as the first statement left it.
\<close>

definition bind_exn ::
  "('w \<Rightarrow> (exn + 'a) \<times> 'w) \<Rightarrow> ('a \<Rightarrow> 'w \<Rightarrow> (exn + 'c) \<times> 'w) \<Rightarrow> 'w \<Rightarrow> (exn + 'c) \<times> 'w" where
  "bind_exn m f w =
     (case m w of
        (Inl e, w1) \<Rightarrow> (Inl e, w1)
      | (Inr x, w1) \<Rightarrow> f x w1)"

section \<open>helper.py\<close>

definition provide_scraping_result_dict ::
  "string \<Rightarrow> bool \<Rightarrow> bool \<Rightarrow> pyval \<Rightarrow> nat \<Rightarrow> pyval \<Rightarrow> pydict" where
  "provide_scraping_result_dict web_url is_gambling_site is_error scraped_elements
       scraping_initiation_time exception_raised =
     [(''web_url'', PStr web_url),
      (''is_gambling_site'', PBool is_gambling_site),
      (''is_error'', PBool is_error),
      (''scraped_elements'', scraped_elements),
      (''scraping_initiation_time'', PDatetime scraping_initiation_time),
      (''exception_raised'', exception_raised)]"

definition scroll_height_script :: string where
  "scroll_height_script = ''return document.documentElement.scrollHeight''"

definition viewport_height_script :: string where
  "viewport_height_script = ''return document.documentElement.clientHeight''"

definition ready_state_script :: string where
  "ready_state_script = ''return document.readyState''"

definition scroll_to_bottom_script :: string where
  "scroll_to_bottom_script = ''window.scrollTo(0, document.body.scrollHeight);''"

definition is_vertical_scrollbar_present ::
  "'b driver \<Rightarrow> 'b world \<Rightarrow> (exn + bool) \<times> 'b world" where
  "is_vertical_scrollbar_present drv =
     bind_exn (execute_script drv scroll_height_script) (\<lambda>scroll_height.
     bind_exn (execute_script drv viewport_height_script) (\<lambda>viewport_height.
     (\<lambda>w. (py_gt scroll_height viewport_height, w))))"

text \<open>
  The condition polled by \<open>wait_until_page_ready\<close>:
  \<open>driver.execute_script("return document.readyState") == "complete"\<close>.
  Python's \<open>==\<close> never raises; it is false for a value that is not that string.
\<close>

definition ready_condition :: "'b driver \<Rightarrow> 'b world \<Rightarrow> (exn + bool) \<times> 'b world" where
  "ready_condition drv =
     bind_exn (execute_script drv ready_state_script) (\<lambda>state.
     (\<lambda>w. (Inr (state = JStr ''complete''), w)))"

text \<open>
  selenium's \<open>WebDriverWait(driver, timeout).until(method)\<close>, with the default poll
  frequency of half a second and the default ignored exception
  \<open>NoSuchElementException\<close>. One round of its loop calls the method, returns when it
  is true and lets any exception other than the ignored one through. After a call
  that did not end the wait, the older releases sleep and then give up when the clock
  has passed the end time; the newer ones give up when the clock has passed the end
  time and sleep otherwise. \<open>after_call\<close> is that second half of a round: whether the
  wait gives up, and the world it is then in.
\<close>

definition poll_frequency :: nat where
  "poll_frequency = 500"

definition after_call :: "'b driver \<Rightarrow> nat \<Rightarrow> 'b world \<Rightarrow> bool \<times> 'b world" where
  "after_call drv end_time w =
     (if drv_wait_sleeps_first drv then
        (let w1 = snd (time_sleep poll_frequency w) in (end_time < clock w1, w1))
      else if end_time < clock w then (True, w)
      else (False, snd (time_sleep poll_frequency w)))"

function until_ready :: "'b driver \<Rightarrow> nat \<Rightarrow> 'b world \<Rightarrow> (exn + unit) \<times> 'b world" where
  "until_ready drv end_time w =
     (case ready_condition drv w of
        (Inr value, w1) \<Rightarrow>
          if value then (Inr (), w1)
          else (case after_call drv end_time w1 of
                  (True, w2) \<Rightarrow> (Inl TimeoutException, w2)
                | (False, w2) \<Rightarrow> until_ready drv end_time w2)
      | (Inl e, w1) \<Rightarrow>
          if e = NoSuchElementException then
            (case after_call drv end_time w1 of
               (True, w2) \<Rightarrow> (Inl TimeoutException, w2)
             | (False, w2) \<Rightarrow> until_ready drv end_time w2)
          else (Inl e, w1))"
  by pat_completeness auto

termination until_ready
proof (relation "measure (\<lambda>(drv, end_time, w). Suc end_time - clock w)")
  have later: "clock w \<le> clock w1" if "(x, w1) = ready_condition drv w"
    for drv :: "'b driver" and w w1 :: "'b world" and x
    using that
    by (auto simp add: ready_condition_def bind_exn_def execute_script_def
        split: prod.splits sum.splits)
  have decreases:
    "((drv, end_time, w2), (drv, end_time, w))
       \<in> measure (\<lambda>(drv, end_time, w). Suc end_time - clock w)"
    if "(x, w1) = ready_condition drv w" and "(False, w2) = after_call drv end_time w1"
    for drv :: "'b driver" and end_time w w1 w2 x
    using that later [of x w1 drv w]
    by (auto simp add: after_call_def time_sleep_def poll_frequency_def Let_def
        split: if_splits)
  show "wf (measure (\<lambda>(drv :: 'b driver, end_time, w :: 'b world). Suc end_time - clock w))"
    by simp
  show "((drv, end_time, w2), (drv, end_time, w))
          \<in> measure (\<lambda>(drv, end_time, w). Suc end_time - clock w)"
    if "(x, w1) = ready_condition drv w" and "(y, w2) = after_call drv end_time w1"
      and "y = False"
    for drv :: "'b driver" and end_time w w1 w2 x y
    using that decreases [of x w1 drv w w2 end_time] by simp
  show "((drv, end_time, w2), (drv, end_time, w))
          \<in> measure (\<lambda>(drv, end_time, w). Suc end_time - clock w)"
    if "(x, w1) = ready_condition drv w" and "(y, w2) = after_call drv end_time w1"
      and "y = False"
    for drv :: "'b driver" and end_time w w1 w2 x y
    using that decreases [of x w1 drv w w2 end_time] by simp
qed

declare until_ready.simps [simp del]

definition wait_until_page_ready :: "'b driver \<Rightarrow> 'b world \<Rightarrow> (exn + unit) \<times> 'b world" where
  "wait_until_page_ready drv w = until_ready drv (clock w + 30000) w"

text \<open>
  The \<open>try\<close> block of \<open>get_scraping_result\<close>. It ends with the page source, or with
  the first exception raised in it.
\<close>

definition scraping_steps ::
  "'b driver \<Rightarrow> string \<Rightarrow> 'b world \<Rightarrow> (exn + string) \<times> 'b world" where
  "scraping_steps drv web_url =
     bind_exn (get drv web_url) (\<lambda>_.
     bind_exn (wait_until_page_ready drv) (\<lambda>_.
     bind_exn (time_sleep 5000) (\<lambda>_.
     bind_exn (is_vertical_scrollbar_present drv) (\<lambda>present.
     bind_exn (if present then execute_script drv scroll_to_bottom_script
               else (\<lambda>w. (Inr JNone, w))) (\<lambda>_.
     bind_exn (time_sleep 5000) (\<lambda>_.
     page_source drv))))))"

text \<open>
  The \<open>except\<close> clauses of \<open>get_scraping_result\<close>, for the exception that ended the
  \<open>try\<close> block: the value they leave in \<open>exception_raised\<close> and the world after them.
  An exception that is no instance of \<open>Exception\<close> matches no clause. Each clause
  assigns and then prints; an exception raised by that \<open>print\<close> is pending when the
  \<open>finally\<close> clause starts, like an exception that matched no clause.
\<close>

definition except_clauses :: "exn \<Rightarrow> 'b world \<Rightarrow> pyval \<times> 'b world" where
  "except_clauses e w =
     (if e = TimeoutException then
        (PStr ''Timeout Exception'',
         snd (py_print [PStr ''Error occurred: '', PStr ''Timeout Exception''] w))
      else if is_Exception e then
        (PException e, snd (py_print [PStr ''Error occurred: '', PException e] w))
      else (PNone, w))"

text \<open>The three \<open>print\<close> calls of the \<open>finally\<close> clause of \<open>get_scraping_result\<close>.\<close>

definition finally_prints ::
  "string \<Rightarrow> int \<Rightarrow> int \<Rightarrow> bool \<Rightarrow> pyval \<Rightarrow> 'b world \<Rightarrow> (exn + unit) \<times> 'b world" where
  "finally_prints web_url df_row_count item_position is_error exception_raised =
     bind_exn (py_print [PStr ''['', PInt item_position, PStr ''/'', PInt df_row_count,
                         PStr ''] scraping finished on '', PStr web_url]) (\<lambda>_.
     bind_exn (py_print [PStr (CHR 0x09 # ''is error: ''), PBool is_error]) (\<lambda>_.
     py_print [PStr (CHR 0x09 # ''exception: ''), exception_raised]))"

text \<open>
  \<open>get_scraping_result\<close>: the \<open>try\<close> block, the \<open>except\<close> clauses and the \<open>finally\<close>
  clause. The \<open>finally\<close> clause prints, reads the clock and returns the report; its
  \<open>return\<close> discards an exception that is pending. An exception raised by one of its
  own \<open>print\<close> calls leaves the function instead of the report.
\<close>

definition get_scraping_result ::
  "'b driver \<Rightarrow> string \<Rightarrow> bool \<Rightarrow> int \<Rightarrow> int \<Rightarrow> 'b world \<Rightarrow> (exn + pydict) \<times> 'b world" where
  "get_scraping_result drv web_url is_gambling_site df_row_count item_position w =
     (case scraping_steps drv web_url w of
        (Inr source, w1) \<Rightarrow>
          bind_exn (finally_prints web_url df_row_count item_position False PNone) (\<lambda>_ w2.
            (Inr (provide_scraping_result_dict web_url is_gambling_site False (PStr source)
                    (clock w2) PNone), w2)) w1
      | (Inl e, w1) \<Rightarrow>
          (case except_clauses e w1 of
             (exception_raised, w2) \<Rightarrow>
               bind_exn (finally_prints web_url df_row_count item_position True
                           exception_raised) (\<lambda>_ w3.
                 (Inr (provide_scraping_result_dict web_url is_gambling_site True PNone
                         (clock w3) exception_raised), w3)) w2))"

text \<open>The \<open>try\<close> block of \<open>get_crawling_scraping_result\<close>: the same, without \<open>get\<close>.\<close>

definition crawling_steps :: "'b driver \<Rightarrow> 'b world \<Rightarrow> (exn + string) \<times> 'b world" where
  "crawling_steps drv =
     bind_exn (wait_until_page_ready drv) (\<lambda>_.
     bind_exn (time_sleep 5000) (\<lambda>_.
     bind_exn (is_vertical_scrollbar_present drv) (\<lambda>present.
     bind_exn (if present then execute_script drv scroll_to_bottom_script
               else (\<lambda>w. (Inr JNone, w))) (\<lambda>_.
     bind_exn (time_sleep 5000) (\<lambda>_.
     page_source drv)))))"

text \<open>The \<open>except\<close> clauses of \<open>get_crawling_scraping_result\<close>.\<close>

definition crawling_except_clauses :: "exn \<Rightarrow> 'b world \<Rightarrow> pyval \<times> 'b world" where
  "crawling_except_clauses e w =
     (if e = TimeoutException then
        (PStr ''Timeout Exception'',
         snd (py_print [PStr ''Error occurred: '', PStr ''Timeout Exception''] w))
      else if e = NoSuchElementException then
        (PStr ''The web is not loaded'',
         snd (py_print [PStr ''Error occurred: '', PStr ''The web is not loaded''] w))
      else if is_Exception e then
        (PException e, snd (py_print [PStr ''Error occurred: '', PException e] w))
      else (PNone, w))"

text \<open>The three \<open>print\<close> calls of its \<open>finally\<close> clause.\<close>

definition crawling_finally_prints ::
  "string \<Rightarrow> bool \<Rightarrow> pyval \<Rightarrow> 'b world \<Rightarrow> (exn + unit) \<times> 'b world" where
  "crawling_finally_prints web_url is_error exception_raised =
     bind_exn (py_print [PStr ''scraping finished on '', PStr web_url]) (\<lambda>_.
     bind_exn (py_print [PStr (CHR 0x09 # ''is error: ''), PBool is_error]) (\<lambda>_.
     py_print [PStr (CHR 0x09 # ''exception: ''), exception_raised]))"

definition get_crawling_scraping_result ::
  "'b driver \<Rightarrow> string \<Rightarrow> 'b world \<Rightarrow> (exn + pydict) \<times> 'b world" where
  "get_crawling_scraping_result drv web_url w =
     (case crawling_steps drv w of
        (Inr source, w1) \<Rightarrow>
          bind_exn (crawling_finally_prints web_url False PNone) (\<lambda>_ w2.
            (Inr [(''web_url'', PStr web_url),
                  (''is_error'', PBool False),
                  (''scraped_elements'', PStr source),
                  (''scraping_initiation_time'', PDatetime (clock w2)),
                  (''exception_raised'', PNone)], w2)) w1
      | (Inl e, w1) \<Rightarrow>
          (case crawling_except_clauses e w1 of
             (exception_raised, w2) \<Rightarrow>
               bind_exn (crawling_finally_prints web_url True exception_raised) (\<lambda>_ w3.
                 (Inr [(''web_url'', PStr web_url),
                       (''is_error'', PBool True),
                       (''scraped_elements'', PNone),
                       (''scraping_initiation_time'', PDatetime (clock w3)),
                       (''exception_raised'', exception_raised)], w3)) w2))"

section \<open>Polling, step by step\<close>


text \<open>A call of the condition after which the wait goes on polling.\<close>

definition not_yet :: "exn + bool \<Rightarrow> bool" where
  "not_yet r = (r = Inr False \<or> r = Inl NoSuchElementException)"


text \<open>
  From one world to a later one, the browser was sent only commands of \<open>A\<close>: the
  list of commands grew by commands of \<open>A\<close>.
\<close>

definition sends_only :: "command set \<Rightarrow> 'b world \<Rightarrow> 'b world \<Rightarrow> bool" where
  "sends_only A w w' = (\<exists>cmds. issued w' = issued w @ cmds \<and> set cmds \<subseteq> A)"

section \<open>Sample browser sessions\<close>

text \<open>
  A page whose state counts the ready-state queries answered so far: the document is
  complete once \<open>ready\<close> holds of that count. A query of the ready-state takes
  \<open>poll_ms\<close>. The session runs the loop that looks at the clock before it sleeps.
\<close>

definition page :: "(nat \<Rightarrow> bool) \<Rightarrow> nat \<Rightarrow> int \<Rightarrow> int \<Rightarrow> string \<Rightarrow> nat driver" where
  "page ready poll_ms scroll_height viewport_height source =
     \<lparr>drv_get = (\<lambda>url b. (Inr (), 100, 0)),
      drv_execute_script = (\<lambda>script b.
        if script = ready_state_script then
          (Inr (JStr (if ready b then ''complete'' else ''loading'')), poll_ms, Suc b)
        else if script = scroll_height_script then (Inr (JInt scroll_height), 10, b)
        else if script = viewport_height_script then (Inr (JInt viewport_height), 10, b)
        else (Inr JNone, 10, b)),
      drv_page_source = (\<lambda>b. (Inr source, 10, b)),
      drv_wait_sleeps_first = False\<rparr>"

text \<open>Time 0, nothing sent, nothing printed, a standard output that accepts every line.\<close>

definition world0 :: "nat world" where
  "world0 = \<lparr>clock = 0, issued = [], browser = 0, console = [],
             stdout = (\<lambda>printed line. None)\<rparr>"

text \<open>The same with a standard output that is closed: every \<open>print\<close> raises.\<close>

definition closed_stdout_world :: "nat world" where
  "closed_stdout_world =
     world0\<lparr>stdout := (\<lambda>printed line. Some (OtherException ''I/O operation on closed file''))\<rparr>"

text \<open>Loads at once, no scrollbar.\<close>

definition short_page :: "nat driver" where
  "short_page = page (\<lambda>b. True) 10 800 800 ''<html>...</html>''"

text \<open>Loads at once, with a scrollbar.\<close>

definition long_page :: "nat driver" where
  "long_page = page (\<lambda>b. True) 10 2000 800 ''<html>...</html>''"

text \<open>Complete at the third query of the ready-state.\<close>

definition slow_page :: "nat driver" where
  "slow_page = page (\<lambda>b. 2 \<le> b) 10 2000 800 ''<html>...</html>''"

text \<open>Never complete; each query of the ready-state takes twenty seconds.\<close>

definition stalled_page :: "nat driver" where
  "stalled_page = page (\<lambda>b. False) 20000 800 800 ''<html>...</html>''"

text \<open>
  The first query of the ready-state takes sixty seconds and then finds the document
  complete.
\<close>

definition late_page :: "nat driver" where
  "late_page = page (\<lambda>b. True) 60000 800 800 ''<html>...</html>''"

text \<open>Navigation fails.\<close>

definition unreachable_host :: "nat driver" where
  "unreachable_host =
     short_page\<lparr>drv_get := (\<lambda>url b. (Inl (OtherException ''unreachable host''), 50, b))\<rparr>"

text \<open>The operator interrupts the program during navigation.\<close>

definition interrupted_page :: "nat driver" where
  "interrupted_page = short_page\<lparr>drv_get := (\<lambda>url b. (Inl KeyboardInterrupt, 50, b))\<rparr>"

text \<open>The query of the scroll height raises the missing-element exception.\<close>

definition missing_element_page :: "nat driver" where
  "missing_element_page =
     short_page\<lparr>drv_execute_script := (\<lambda>script b.
       if script = scroll_height_script then (Inl NoSuchElementException, 10, b)
       else drv_execute_script short_page script b)\<rparr>"

text \<open>
  The first query of the ready-state raises the missing-element exception; the second
  one finds the document complete.
\<close>

definition flaky_page :: "nat driver" where
  "flaky_page =
     short_page\<lparr>drv_execute_script := (\<lambda>script b.
       if script = ready_state_script \<and> b = 0 then (Inl NoSuchElementException, 10, Suc b)
       else drv_execute_script short_page script b)\<rparr>"

section \<open>Evaluating the sample sessions\<close>

lemmas script_defs = ready_state_script_def scroll_height_script_def
  viewport_height_script_def scroll_to_bottom_script_def

lemmas step_defs = bind_exn_def get_def execute_script_def page_source_def time_sleep_def
  py_print_def is_vertical_scrollbar_present_def ready_condition_def
  wait_until_page_ready_def after_call_def poll_frequency_def

lemmas page_defs = page_def world0_def closed_stdout_world_def short_page_def
  long_page_def slow_page_def stalled_page_def late_page_def unreachable_host_def
  interrupted_page_def missing_element_page_def flaky_page_def

lemmas run_defs = get_scraping_result_def scraping_steps_def except_clauses_def
  finally_prints_def get_crawling_scraping_result_def crawling_steps_def
  crawling_except_clauses_def crawling_finally_prints_def
  provide_scraping_result_dict_def step_defs script_defs page_defs until_ready.simps

lemma short_page_report:
  "fst (get_scraping_result short_page ''u'' False 1 1 world0) =
     Inr [(''web_url'', PStr ''u''), (''is_gambling_site'', PBool False),
          (''is_error'', PBool False), (''scraped_elements'', PStr ''<html>...</html>''),
          (''scraping_initiation_time'', PDatetime 10140), (''exception_raised'', PNone)]"
  "clock (snd (get_scraping_result short_page ''u'' False 1 1 world0)) = 10140"
  "issued (snd (get_scraping_result short_page ''u'' False 1 1 world0)) =
     [Get ''u'', ExecuteScript ready_state_script, ExecuteScript scroll_height_script,
      ExecuteScript viewport_height_script, PageSource]"
  by (simp_all add: run_defs)

lemma long_page_report:
  "fst (get_scraping_result long_page ''u'' True 1 1 world0) =
     Inr [(''web_url'', PStr ''u''), (''is_gambling_site'', PBool True),
          (''is_error'', PBool False), (''scraped_elements'', PStr ''<html>...</html>''),
          (''scraping_initiation_time'', PDatetime 10150), (''exception_raised'', PNone)]"
  "issued (snd (get_scraping_result long_page ''u'' True 1 1 world0)) =
     [Get ''u'', ExecuteScript ready_state_script, ExecuteScript scroll_height_script,
      ExecuteScript viewport_height_script, ExecuteScript scroll_to_bottom_script,
      PageSource]"
  by (simp_all add: run_defs)

lemma stalled_page_report:
  "fst (get_scraping_result stalled_page ''u'' True 1 1 world0) =
     Inr [(''web_url'', PStr ''u''), (''is_gambling_site'', PBool True),
          (''is_error'', PBool True), (''scraped_elements'', PNone),
          (''scraping_initiation_time'', PDatetime 40600),
          (''exception_raised'', PStr ''Timeout Exception'')]"
  by (simp add: run_defs)

lemma unreachable_host_report:
  "fst (get_scraping_result unreachable_host ''u'' True 1 1 world0) =
     Inr [(''web_url'', PStr ''u''), (''is_gambling_site'', PBool True),
          (''is_error'', PBool True), (''scraped_elements'', PNone),
          (''scraping_initiation_time'', PDatetime 50),
          (''exception_raised'', PException (OtherException ''unreachable host''))]"
  by (simp add: run_defs)

text \<open>
  An interrupt during navigation matches no \<open>except\<close> clause; the \<open>return\<close> of the
  \<open>finally\<close> clause discards it, and the report has no exception.
\<close>

lemma interrupted_page_report:
  "fst (scraping_steps interrupted_page ''u'' world0) = Inl KeyboardInterrupt"
  "fst (get_scraping_result interrupted_page ''u'' True 1 1 world0) =
     Inr [(''web_url'', PStr ''u''), (''is_gambling_site'', PBool True),
          (''is_error'', PBool True), (''scraped_elements'', PNone),
          (''scraping_initiation_time'', PDatetime 50),
          (''exception_raised'', PNone)]"
  by (simp_all add: run_defs)

text \<open>
  With the standard output closed, the first \<open>print\<close> of the \<open>finally\<close> clause raises
  and the exception leaves the function, on a page that loads as on a host that
  cannot be reached.
\<close>

lemma closed_stdout_report:
  "fst (get_scraping_result short_page ''u'' True 1 1 closed_stdout_world) =
     Inl (OtherException ''I/O operation on closed file'')"
  "fst (scraping_steps unreachable_host ''u'' closed_stdout_world) =
     Inl (OtherException ''unreachable host'')"
  "fst (get_scraping_result unreachable_host ''u'' True 1 1 closed_stdout_world) =
     Inl (OtherException ''I/O operation on closed file'')"
  by (simp_all add: run_defs)

lemma missing_element_crawl_report:
  "fst (crawling_steps missing_element_page world0) = Inl NoSuchElementException"
  "fst (get_crawling_scraping_result missing_element_page ''u'' world0) =
     Inr [(''web_url'', PStr ''u''), (''is_error'', PBool True),
          (''scraped_elements'', PNone),
          (''scraping_initiation_time'', PDatetime 5020),
          (''exception_raised'', PStr ''The web is not loaded'')]"
  by (simp_all add: run_defs)

text \<open>
  A \<open>NoSuchElementException\<close> raised by a query of the ready-state is ignored by the
  wait, which polls again: the crawl of such a page succeeds.
\<close>

lemma flaky_page_crawl_report:
  "fst (get_crawling_scraping_result flaky_page ''u'' world0) =
     Inr [(''web_url'', PStr ''u''), (''is_error'', PBool False),
          (''scraped_elements'', PStr ''<html>...</html>''),
          (''scraping_initiation_time'', PDatetime 10550),
          (''exception_raised'', PNone)]"
  "issued (snd (get_crawling_scraping_result flaky_page ''u'' world0)) =
     [ExecuteScript ready_state_script, ExecuteScript ready_state_script,
      ExecuteScript scroll_height_script, ExecuteScript viewport_height_script,
      PageSource]"
  by (simp_all add: run_defs)


section \<open>Facts about the steps\<close>

lemma bind_exn_Inr:
  "bind_exn m f w = (Inr y, w') \<longleftrightarrow> (\<exists>x w1. m w = (Inr x, w1) \<and> f x w1 = (Inr y, w'))"
  by (auto simp add: bind_exn_def split: prod.splits sum.splits)

lemma bind_exn_related:
  assumes "\<And>w. R w (snd (m w))"
    and "\<And>x w. R w (snd (f x w))"
    and "\<And>a b c. R a b \<Longrightarrow> R b c \<Longrightarrow> R a c"
  shows "R w (snd (bind_exn m f w))"
proof (cases "m w")
  case (Pair r w1)
  show ?thesis
  proof (cases r)
    case (Inl e)
    with Pair assms(1) [of w] show ?thesis
      by (simp add: bind_exn_def)
  next
    case (Inr x)
    with Pair assms(1) [of w] assms(2) [of w1 x] assms(3) show ?thesis
      by (simp add: bind_exn_def)
  qed
qed

lemma after_call_goes_on:
  "\<not> fst (after_call drv end_time w) \<Longrightarrow>
     after_call drv end_time w = (False, snd (time_sleep poll_frequency w))"
  by (auto simp add: after_call_def Let_def split: if_splits)

lemma after_call_gives_up:
  "fst (after_call drv end_time w) \<Longrightarrow>
     after_call drv end_time w = (True, snd (after_call drv end_time w)) \<and>
     end_time < clock (snd (after_call drv end_time w)) \<and>
     (snd (after_call drv end_time w) = w \<or>
      snd (after_call drv end_time w) = snd (time_sleep poll_frequency w))"
  by (auto simp add: after_call_def Let_def split: if_splits)


lemma until_ready_again:
  "ready_condition drv w = (x, w1) \<Longrightarrow> not_yet x \<Longrightarrow>
   \<not> fst (after_call drv end_time w1) \<Longrightarrow>
     until_ready drv end_time w =
       until_ready drv end_time (snd (time_sleep poll_frequency w1))"
  using after_call_goes_on [of drv end_time w1]
  by (auto simp add: until_ready.simps [of drv end_time w] not_yet_def)

lemma until_ready_late:
  "ready_condition drv w = (x, w1) \<Longrightarrow> not_yet x \<Longrightarrow> fst (after_call drv end_time w1) \<Longrightarrow>
     until_ready drv end_time w = (Inl TimeoutException, snd (after_call drv end_time w1))"
  using after_call_gives_up [of drv end_time w1]
  by (auto simp add: until_ready.simps [of drv end_time w] not_yet_def
      split: prod.splits bool.splits)

lemma until_ready_stops:
  "ready_condition drv w = (x, w1) \<Longrightarrow> \<not> not_yet x \<Longrightarrow>
     snd (until_ready drv end_time w) = w1"
  by (auto simp add: until_ready.simps [of drv end_time w] not_yet_def split: sum.splits)

lemma until_ready_related:
  assumes poll: "\<And>(d :: 'b driver) w. R w (snd (ready_condition d w))"
    and sleep: "\<And>w. R w (snd (time_sleep poll_frequency w))"
    and trans: "\<And>a b c. R a b \<Longrightarrow> R b c \<Longrightarrow> R a c"
  shows "R w (snd (until_ready (drv :: 'b driver) end_time w))"
proof (induction drv end_time w rule: until_ready.induct)
  case (1 drv end_time w)
  obtain x w1 where rc: "ready_condition drv w = (x, w1)"
    by (cases "ready_condition drv w")
  have first: "R w w1"
    using poll [of w drv] rc by simp
  let ?w2 = "snd (time_sleep poll_frequency w1)"
  have second: "R w ?w2"
    using first sleep [of w1] trans by blast
  show ?case
  proof (cases "not_yet x")
    case False
    then show ?thesis
      using until_ready_stops [OF rc] first by simp
  next
    case True
    show ?thesis
    proof (cases "fst (after_call drv end_time w1)")
      case True
      with until_ready_late [OF rc \<open>not_yet x\<close>] after_call_gives_up [of drv end_time w1]
        first second
      show ?thesis
        by auto
    next
      case False
      have "R ?w2 (snd (until_ready drv end_time ?w2))"
        using \<open>not_yet x\<close> False rc [symmetric]
          after_call_goes_on [OF False, symmetric] "1.IH"
        by (cases x) (auto simp add: not_yet_def)
      moreover have "until_ready drv end_time w = until_ready drv end_time ?w2"
        using until_ready_again [OF rc \<open>not_yet x\<close> False] .
      ultimately show ?thesis
        using second trans by metis
    qed
  qed
qed



lemma sends_only_refl: "sends_only A w w"
  by (simp add: sends_only_def)

lemma sends_only_trans: "sends_only A a b \<Longrightarrow> sends_only A b c \<Longrightarrow> sends_only A a c"
  by (auto simp add: sends_only_def)

lemma sends_only_mono: "sends_only A a b \<Longrightarrow> A \<subseteq> B \<Longrightarrow> sends_only B a b"
  by (auto simp add: sends_only_def)

lemma sends_only_count:
  "sends_only A a b \<Longrightarrow> c \<notin> A \<Longrightarrow> count_list (issued b) c = count_list (issued a) c"
  by (auto simp add: sends_only_def intro!: count_notin)

lemma sends_only_get: "sends_only {Get url} w (snd (get drv url w))"
  by (simp add: sends_only_def get_def split: prod.splits)

lemma sends_only_execute_script:
  "sends_only {ExecuteScript script} w (snd (execute_script drv script w))"
  by (simp add: sends_only_def execute_script_def split: prod.splits)

lemma sends_only_page_source: "sends_only {PageSource} w (snd (page_source drv w))"
  by (simp add: sends_only_def page_source_def split: prod.splits)

lemma sends_only_time_sleep: "sends_only A w (snd (time_sleep ms w))"
  by (simp add: sends_only_def time_sleep_def)

lemma sends_only_bind:
  assumes "\<And>w. sends_only A w (snd (m w))" and "\<And>x w. sends_only A w (snd (f x w))"
  shows "sends_only A w (snd (bind_exn m f w))"
  using assms sends_only_trans
  by (rule bind_exn_related [where R = "sends_only A"])

lemma sends_only_ready_condition:
  "sends_only {ExecuteScript ready_state_script} w (snd (ready_condition drv w))"
  unfolding ready_condition_def
  by (rule sends_only_bind) (simp_all add: sends_only_execute_script sends_only_refl)

lemma sends_only_wait:
  "sends_only {ExecuteScript ready_state_script} w (snd (wait_until_page_ready drv w))"
  unfolding wait_until_page_ready_def
  by (rule until_ready_related [where R = "sends_only {ExecuteScript ready_state_script}"])
    (auto intro: sends_only_ready_condition sends_only_time_sleep sends_only_trans)

lemma sends_only_scrollbar:
  "sends_only {ExecuteScript scroll_height_script, ExecuteScript viewport_height_script} w
     (snd (is_vertical_scrollbar_present drv w))"
  unfolding is_vertical_scrollbar_present_def
  by (intro sends_only_bind)
    (auto intro: sends_only_mono [OF sends_only_execute_script] sends_only_refl)

lemma sends_only_crawling_steps:
  "sends_only
     {ExecuteScript ready_state_script, ExecuteScript scroll_height_script,
      ExecuteScript viewport_height_script, ExecuteScript scroll_to_bottom_script,
      PageSource}
     w (snd (crawling_steps drv w))"
  unfolding crawling_steps_def
  by (intro sends_only_bind)
    (auto intro: sends_only_mono [OF sends_only_execute_script]
       sends_only_mono [OF sends_only_wait] sends_only_mono [OF sends_only_scrollbar]
       sends_only_mono [OF sends_only_page_source] sends_only_time_sleep sends_only_refl)

lemma clock_get: "clock w \<le> clock (snd (get drv url w))"
  by (simp add: get_def split: prod.splits)

lemma clock_execute_script: "clock w \<le> clock (snd (execute_script drv script w))"
  by (simp add: execute_script_def split: prod.splits)

lemma clock_page_source: "clock w \<le> clock (snd (page_source drv w))"
  by (simp add: page_source_def split: prod.splits)

lemma clock_bind:
  assumes "\<And>w. clock w \<le> clock (snd (m w))" and "\<And>x w. clock w \<le> clock (snd (f x w))"
  shows "clock w \<le> clock (snd (bind_exn m f w))"
  using assms
  by (rule bind_exn_related [where R = "\<lambda>a b. clock a \<le> clock b"]) simp

lemma clock_ready_condition: "clock w \<le> clock (snd (ready_condition drv w))"
  unfolding ready_condition_def
  by (rule clock_bind) (simp_all add: clock_execute_script)

lemma clock_wait: "clock w \<le> clock (snd (wait_until_page_ready drv w))"
  unfolding wait_until_page_ready_def
  by (rule until_ready_related [where R = "\<lambda>a b. clock a \<le> clock b"])
    (simp_all add: clock_ready_condition time_sleep_def)

lemma clock_scrollbar: "clock w \<le> clock (snd (is_vertical_scrollbar_present drv w))"
  unfolding is_vertical_scrollbar_present_def
  by (intro clock_bind) (simp_all add: clock_execute_script)

lemma clock_scraping_steps: "clock w \<le> clock (snd (scraping_steps drv web_url w))"
  unfolding scraping_steps_def
  by (intro clock_bind)
    (simp_all add: clock_get clock_wait clock_scrollbar clock_execute_script
       clock_page_source time_sleep_def)




lemma py_print_keeps:
  "clock (snd (py_print objects w)) = clock w"
  "issued (snd (py_print objects w)) = issued w"
  by (simp_all add: py_print_def split: option.splits)

lemma prints_only_bind:
  assumes "\<And>w. clock (snd (m w)) = clock w \<and> issued (snd (m w)) = issued w"
    and "\<And>x w. clock (snd (f x w)) = clock w \<and> issued (snd (f x w)) = issued w"
  shows "clock (snd (bind_exn m f w)) = clock w \<and> issued (snd (bind_exn m f w)) = issued w"
  using assms
  by (rule bind_exn_related [where R = "\<lambda>a b. clock b = clock a \<and> issued b = issued a"])
    simp

lemma finally_prints_only:
  "clock (snd (finally_prints web_url df_row_count item_position is_error x w)) = clock w \<and>
   issued (snd (finally_prints web_url df_row_count item_position is_error x w)) = issued w"
  unfolding finally_prints_def
  by (intro prints_only_bind) (simp_all add: py_print_keeps)

lemma finally_prints_keeps:
  "clock (snd (finally_prints web_url df_row_count item_position is_error x w)) = clock w"
  "issued (snd (finally_prints web_url df_row_count item_position is_error x w)) = issued w"
  using finally_prints_only [of web_url df_row_count item_position is_error x w]
  by simp_all

lemma except_clauses_keeps:
  "clock (snd (except_clauses e w)) = clock w"
  "issued (snd (except_clauses e w)) = issued w"
  by (simp_all add: except_clauses_def py_print_keeps)

lemma crawling_finally_prints_only:
  "clock (snd (crawling_finally_prints web_url is_error x w)) = clock w \<and>
   issued (snd (crawling_finally_prints web_url is_error x w)) = issued w"
  unfolding crawling_finally_prints_def
  by (intro prints_only_bind) (simp_all add: py_print_keeps)

lemma crawling_finally_prints_keeps:
  "clock (snd (crawling_finally_prints web_url is_error x w)) = clock w"
  "issued (snd (crawling_finally_prints web_url is_error x w)) = issued w"
  using crawling_finally_prints_only [of web_url is_error x w]
  by simp_all

lemma crawling_except_clauses_keeps:
  "clock (snd (crawling_except_clauses e w)) = clock w"
  "issued (snd (crawling_except_clauses e w)) = issued w"
  by (simp_all add: crawling_except_clauses_def py_print_keeps)

text \<open>
  The world \<open>get_scraping_result\<close> ends in has the clock and the commands of the
  world its \<open>try\<close> block ended in: the \<open>except\<close> and \<open>finally\<close> clauses only print.
\<close>

lemma get_scraping_result_keeps:
  "clock (snd (get_scraping_result drv web_url is_gambling_site df_row_count
                 item_position w)) = clock (snd (scraping_steps drv web_url w))"
  "issued (snd (get_scraping_result drv web_url is_gambling_site df_row_count
                  item_position w)) = issued (snd (scraping_steps drv web_url w))"
proof -
  obtain r w1 where steps: "scraping_steps drv web_url w = (r, w1)"
    by (cases "scraping_steps drv web_url w")
  show "clock (snd (get_scraping_result drv web_url is_gambling_site df_row_count
                 item_position w)) = clock (snd (scraping_steps drv web_url w))"
  proof (cases r)
    case (Inr source)
    with steps finally_prints_keeps(1) [of web_url df_row_count item_position False PNone w1]
    show ?thesis
      by (auto simp add: get_scraping_result_def bind_exn_def split: prod.splits sum.splits)
  next
    case (Inl e)
    obtain x w2 where ex: "except_clauses e w1 = (x, w2)"
      by (cases "except_clauses e w1")
    with Inl steps except_clauses_keeps(1) [of e w1]
      finally_prints_keeps(1) [of web_url df_row_count item_position True x w2]
    show ?thesis
      by (auto simp add: get_scraping_result_def bind_exn_def split: prod.splits sum.splits)
  qed
  show "issued (snd (get_scraping_result drv web_url is_gambling_site df_row_count
                  item_position w)) = issued (snd (scraping_steps drv web_url w))"
  proof (cases r)
    case (Inr source)
    with steps finally_prints_keeps(2) [of web_url df_row_count item_position False PNone w1]
    show ?thesis
      by (auto simp add: get_scraping_result_def bind_exn_def split: prod.splits sum.splits)
  next
    case (Inl e)
    obtain x w2 where ex: "except_clauses e w1 = (x, w2)"
      by (cases "except_clauses e w1")
    with Inl steps except_clauses_keeps(2) [of e w1]
      finally_prints_keeps(2) [of web_url df_row_count item_position True x w2]
    show ?thesis
      by (auto simp add: get_scraping_result_def bind_exn_def split: prod.splits sum.splits)
  qed
qed

lemma get_crawling_scraping_result_keeps:
  "issued (snd (get_crawling_scraping_result drv web_url w))
     = issued (snd (crawling_steps drv w))"
proof -
  obtain r w1 where steps: "crawling_steps drv w = (r, w1)"
    by (cases "crawling_steps drv w")
  show ?thesis
  proof (cases r)
    case (Inr source)
    with steps crawling_finally_prints_keeps(2) [of web_url False PNone w1]
    show ?thesis
      by (auto simp add: get_crawling_scraping_result_def bind_exn_def
          split: prod.splits sum.splits)
  next
    case (Inl e)
    obtain x w2 where ex: "crawling_except_clauses e w1 = (x, w2)"
      by (cases "crawling_except_clauses e w1")
    with Inl steps crawling_except_clauses_keeps(2) [of e w1]
      crawling_finally_prints_keeps(2) [of web_url True x w2]
    show ?thesis
      by (auto simp add: get_crawling_scraping_result_def bind_exn_def
          split: prod.splits sum.splits)
  qed
qed

text \<open>
  What a report of \<open>get_scraping_result\<close> is, by the way the \<open>try\<close> block ended.
\<close>

lemma get_scraping_result_returned:
  assumes "get_scraping_result drv web_url is_gambling_site df_row_count item_position w
      = (Inr r, w')"
  shows "(\<exists>source. fst (scraping_steps drv web_url w) = Inr source \<and>
            r = provide_scraping_result_dict web_url is_gambling_site False (PStr source)
                  (clock w') PNone) \<or>
         (\<exists>e. fst (scraping_steps drv web_url w) = Inl e \<and>
            r = provide_scraping_result_dict web_url is_gambling_site True PNone
                  (clock w') (fst (except_clauses e (snd (scraping_steps drv web_url w)))))"
  using assms
  by (auto simp add: get_scraping_result_def bind_exn_def split: prod.splits sum.splits)

lemma scraping_steps_success:
  assumes "scraping_steps drv web_url w = (Inr source, w7)"
  obtains w1 w2 w3 present w4 v w5 w6 where
    "get drv web_url w = (Inr (), w1)"
    "wait_until_page_ready drv w1 = (Inr (), w2)"
    "time_sleep 5000 w2 = (Inr (), w3)"
    "is_vertical_scrollbar_present drv w3 = (Inr present, w4)"
    "(if present then execute_script drv scroll_to_bottom_script
      else (\<lambda>w. (Inr JNone, w))) w4 = (Inr v, w5)"
    "time_sleep 5000 w5 = (Inr (), w6)"
    "page_source drv w6 = (Inr source, w7)"
  using assms unfolding scraping_steps_def bind_exn_Inr
  by auto

section \<open>The report of \<open>get_scraping_result\<close>\<close>

text \<open>
  C1, as the code has it. In every report returned by \<open>get_scraping_result\<close>,
  whatever the browser does, the key \<open>is_error\<close> holds a boolean; when it is false,
  \<open>scraped_elements\<close> holds a string and \<open>exception_raised\<close> is \<open>None\<close>; when it is
  true, \<open>scraped_elements\<close> is \<open>None\<close>, the \<open>try\<close> block ended with an exception, and
  \<open>exception_raised\<close> is not \<open>None\<close> when that exception is an instance of
  \<open>Exception\<close>.
\<close>

theorem fetch_result_invariant:
  assumes "get_scraping_result drv web_url is_gambling_site df_row_count item_position w
      = (Inr r, w')"
  shows "(map_of r ''is_error'' = Some (PBool False) \<or>
          map_of r ''is_error'' = Some (PBool True)) \<and>
         (map_of r ''is_error'' = Some (PBool False) \<longrightarrow>
            (\<exists>html. map_of r ''scraped_elements'' = Some (PStr html)) \<and>
            map_of r ''exception_raised'' = Some PNone) \<and>
         (map_of r ''is_error'' = Some (PBool True) \<longrightarrow>
            map_of r ''scraped_elements'' = Some PNone \<and>
            (\<exists>e. fst (scraping_steps drv web_url w) = Inl e \<and>
               (is_Exception e \<longrightarrow>
                  (\<exists>x. map_of r ''exception_raised'' = Some x \<and> x \<noteq> PNone))))"
proof -
  from get_scraping_result_returned [OF assms]
  consider (ok) source where
      "fst (scraping_steps drv web_url w) = Inr source"
      "r = provide_scraping_result_dict web_url is_gambling_site False (PStr source)
             (clock w') PNone"
    | (failed) e where
      "fst (scraping_steps drv web_url w) = Inl e"
      "r = provide_scraping_result_dict web_url is_gambling_site True PNone (clock w')
             (fst (except_clauses e (snd (scraping_steps drv web_url w))))"
    by blast
  then show ?thesis
  proof cases
    case ok
    then show ?thesis
      by (simp add: provide_scraping_result_dict_def)
  next
    case failed
    then show ?thesis
      by (simp add: provide_scraping_result_dict_def except_clauses_def)
  qed
qed

text \<open>The invariant on a page that loads and on a host that cannot be reached.\<close>

theorem fetch_result_invariant_witness:
  "(\<exists>r. fst (get_scraping_result short_page ''u'' False 1 1 world0) = Inr r \<and>
      map_of r ''is_error'' = Some (PBool False) \<and>
      (\<exists>html. map_of r ''scraped_elements'' = Some (PStr html)) \<and>
      map_of r ''exception_raised'' = Some PNone) \<and>
   (\<exists>r. fst (get_scraping_result unreachable_host ''u'' True 1 1 world0) = Inr r \<and>
      map_of r ''is_error'' = Some (PBool True) \<and>
      map_of r ''scraped_elements'' = Some PNone \<and>
      is_Exception (OtherException ''unreachable host'') \<and>
      (\<exists>x. map_of r ''exception_raised'' = Some x \<and> x \<noteq> PNone))"
proof -
  let ?ok = "get_scraping_result short_page ''u'' False 1 1 world0"
  let ?failed = "get_scraping_result unreachable_host ''u'' True 1 1 world0"
  have ok: "?ok = (Inr [(''web_url'', PStr ''u''), (''is_gambling_site'', PBool False),
          (''is_error'', PBool False), (''scraped_elements'', PStr ''<html>...</html>''),
          (''scraping_initiation_time'', PDatetime 10140), (''exception_raised'', PNone)],
        snd ?ok)"
    using short_page_report(1) by (simp add: prod_eq_iff)
  have failed: "?failed = (Inr [(''web_url'', PStr ''u''), (''is_gambling_site'', PBool True),
          (''is_error'', PBool True), (''scraped_elements'', PNone),
          (''scraping_initiation_time'', PDatetime 50),
          (''exception_raised'', PException (OtherException ''unreachable host''))],
        snd ?failed)"
    using unreachable_host_report by (simp add: prod_eq_iff)
  have raised: "fst (scraping_steps unreachable_host ''u'' world0)
      = Inl (OtherException ''unreachable host'')"
    by (simp add: run_defs)
  from fetch_result_invariant [OF ok] fetch_result_invariant [OF failed] raised
  show ?thesis
    by (simp add: short_page_report(1) unreachable_host_report)
qed

text \<open>
  An interrupt during navigation is no instance of \<open>Exception\<close>: the report returned
  has \<open>is_error\<close> true and \<open>exception_raised\<close> \<open>None\<close>.
\<close>

theorem interrupt_report_counterexample:
  "fst (scraping_steps interrupted_page ''u'' world0) = Inl KeyboardInterrupt \<and>
   (\<exists>r. fst (get_scraping_result interrupted_page ''u'' True 1 1 world0) = Inr r \<and>
      map_of r ''is_error'' = Some (PBool True) \<and>
      map_of r ''exception_raised'' = Some PNone)"
  by (simp add: interrupted_page_report)

text \<open>
  C2, as the code has it. In a report returned by \<open>get_scraping_result\<close>: when
  navigation succeeded and the wait for the ready-state timed out, the report has
  \<open>is_error\<close> true, \<open>scraped_elements\<close> \<open>None\<close> and \<open>exception_raised\<close> equal to the
  string \<open>Timeout Exception\<close>; when the \<open>try\<close> block ended with any other instance of
  \<open>Exception\<close>, \<open>exception_raised\<close> holds that exception itself.
\<close>

theorem timeout_and_other_exceptions_reported:
  assumes "get_scraping_result drv web_url is_gambling_site df_row_count item_position w
      = (Inr r, w')"
  shows "(get drv web_url w = (Inr (), w1) \<and>
          fst (wait_until_page_ready drv w1) = Inl TimeoutException \<longrightarrow>
            map_of r ''is_error'' = Some (PBool True) \<and>
            map_of r ''scraped_elements'' = Some PNone \<and>
            map_of r ''exception_raised'' = Some (PStr ''Timeout Exception'')) \<and>
         (fst (scraping_steps drv web_url w) = Inl e \<and> e \<noteq> TimeoutException \<and>
          is_Exception e \<longrightarrow>
            map_of r ''is_error'' = Some (PBool True) \<and>
            map_of r ''scraped_elements'' = Some PNone \<and>
            map_of r ''exception_raised'' = Some (PException e))"
proof (rule conjI; rule impI)
  assume "get drv web_url w = (Inr (), w1) \<and>
    fst (wait_until_page_ready drv w1) = Inl TimeoutException"
  then have "fst (scraping_steps drv web_url w) = Inl TimeoutException"
    by (auto simp add: scraping_steps_def bind_exn_def split: prod.splits sum.splits)
  with get_scraping_result_returned [OF assms]
  show "map_of r ''is_error'' = Some (PBool True) \<and>
        map_of r ''scraped_elements'' = Some PNone \<and>
        map_of r ''exception_raised'' = Some (PStr ''Timeout Exception'')"
    by (auto simp add: provide_scraping_result_dict_def except_clauses_def)
next
  assume "fst (scraping_steps drv web_url w) = Inl e \<and> e \<noteq> TimeoutException \<and>
    is_Exception e"
  with get_scraping_result_returned [OF assms]
  show "map_of r ''is_error'' = Some (PBool True) \<and>
        map_of r ''scraped_elements'' = Some PNone \<and>
        map_of r ''exception_raised'' = Some (PException e)"
    by (auto simp add: provide_scraping_result_dict_def except_clauses_def)
qed

text \<open>A page that is never complete, and a host that cannot be reached.\<close>

theorem timeout_and_other_exceptions_reported_witness:
  "get stalled_page ''u'' world0 = (Inr (), world0\<lparr>clock := 100, issued := [Get ''u'']\<rparr>) \<and>
   fst (wait_until_page_ready stalled_page (world0\<lparr>clock := 100, issued := [Get ''u'']\<rparr>))
     = Inl TimeoutException \<and>
   (\<exists>r. fst (get_scraping_result stalled_page ''u'' True 1 1 world0) = Inr r \<and>
      map_of r ''exception_raised'' = Some (PStr ''Timeout Exception'')) \<and>
   fst (scraping_steps unreachable_host ''u'' world0)
     = Inl (OtherException ''unreachable host'') \<and>
   OtherException ''unreachable host'' \<noteq> TimeoutException \<and>
   is_Exception (OtherException ''unreachable host'') \<and>
   (\<exists>r. fst (get_scraping_result unreachable_host ''u'' True 1 1 world0) = Inr r \<and>
      map_of r ''exception_raised'' = Some (PException (OtherException ''unreachable host'')))"
proof -
  let ?w1 = "world0\<lparr>clock := 100, issued := [Get ''u'']\<rparr>"
  let ?stalled = "get_scraping_result stalled_page ''u'' True 1 1 world0"
  let ?failed = "get_scraping_result unreachable_host ''u'' True 1 1 world0"
  have a: "get stalled_page ''u'' world0 = (Inr (), ?w1)"
    by (simp add: step_defs page_defs)
  have b: "fst (wait_until_page_ready stalled_page ?w1) = Inl TimeoutException"
    by (simp add: step_defs script_defs page_defs until_ready.simps)
  have c: "fst (scraping_steps unreachable_host ''u'' world0)
      = Inl (OtherException ''unreachable host'')"
    by (simp add: run_defs)
  have stalled: "?stalled = (Inr [(''web_url'', PStr ''u''),
          (''is_gambling_site'', PBool True),
          (''is_error'', PBool True), (''scraped_elements'', PNone),
          (''scraping_initiation_time'', PDatetime 40600),
          (''exception_raised'', PStr ''Timeout Exception'')], snd ?stalled)"
    using stalled_page_report by (simp add: prod_eq_iff)
  have failed: "?failed = (Inr [(''web_url'', PStr ''u''), (''is_gambling_site'', PBool True),
          (''is_error'', PBool True), (''scraped_elements'', PNone),
          (''scraping_initiation_time'', PDatetime 50),
          (''exception_raised'', PException (OtherException ''unreachable host''))],
        snd ?failed)"
    using unreachable_host_report by (simp add: prod_eq_iff)
  from a b c
    timeout_and_other_exceptions_reported [OF stalled, where ?w1.0 = ?w1
      and e = "OtherException ''unreachable host''"]
    timeout_and_other_exceptions_reported [OF failed, where ?w1.0 = world0
      and e = "OtherException ''unreachable host''"]
  show ?thesis
    by (simp add: stalled_page_report unreachable_host_report)
qed

text \<open>
  On the page that is never complete the wait times out, and the report's
  \<open>exception_raised\<close> is the string \<open>Timeout Exception\<close>, not \<open>Timeout\<close>.
\<close>

theorem timeout_string_counterexample:
  "fst (wait_until_page_ready stalled_page (snd (get stalled_page ''u'' world0)))
     = Inl TimeoutException \<and>
   (\<exists>r. fst (get_scraping_result stalled_page ''u'' True 1 1 world0) = Inr r \<and>
      map_of r ''exception_raised'' = Some (PStr ''Timeout Exception'') \<and>
      map_of r ''exception_raised'' \<noteq> Some (PStr ''Timeout''))"
proof -
  have "fst (wait_until_page_ready stalled_page (snd (get stalled_page ''u'' world0)))
      = Inl TimeoutException"
    by (simp add: step_defs script_defs page_defs until_ready.simps)
  then show ?thesis
    by (simp add: stalled_page_report)
qed

text \<open>
  C3, as the code has it. Whatever exception ends the \<open>try\<close> block of
  \<open>get_scraping_result\<close>, an instance of \<open>Exception\<close> or not, and whether or not the
  \<open>print\<close> of an \<open>except\<close> clause raises: when the three \<open>print\<close> calls of the
  \<open>finally\<close> clause raise nothing, the call returns the report with its six keys,
  \<open>is_error\<close> true, \<open>scraped_elements\<close> \<open>None\<close> and \<open>exception_raised\<close> as the
  \<open>except\<close> clauses set it; when one of those \<open>print\<close> calls raises, that exception
  leaves the function and no report is returned.
\<close>

theorem exceptions_reported_in_band:
  assumes "scraping_steps drv web_url w = (Inl e, w1)"
    and "except_clauses e w1 = (exception_raised, w2)"
  shows "(fst (finally_prints web_url df_row_count item_position True exception_raised w2)
            = Inr () \<longrightarrow>
          fst (get_scraping_result drv web_url is_gambling_site df_row_count
                 item_position w) =
            Inr [(''web_url'', PStr web_url),
                 (''is_gambling_site'', PBool is_gambling_site),
                 (''is_error'', PBool True),
                 (''scraped_elements'', PNone),
                 (''scraping_initiation_time'', PDatetime (clock w1)),
                 (''exception_raised'',
                    if e = TimeoutException then PStr ''Timeout Exception''
                    else if is_Exception e then PException e else PNone)]) \<and>
         (fst (finally_prints web_url df_row_count item_position True exception_raised w2)
            = Inl e' \<longrightarrow>
          fst (get_scraping_result drv web_url is_gambling_site df_row_count
                 item_position w) = Inl e')"
proof -
  obtain p w3 where prints:
    "finally_prints web_url df_row_count item_position True exception_raised w2 = (p, w3)"
    by (cases "finally_prints web_url df_row_count item_position True exception_raised w2")
  have "clock w3 = clock w1"
    using finally_prints_keeps(1) [of web_url df_row_count item_position True
        exception_raised w2]
      except_clauses_keeps(1) [of e w1] prints assms(2)
    by simp
  moreover have "exception_raised =
      (if e = TimeoutException then PStr ''Timeout Exception''
       else if is_Exception e then PException e else PNone)"
    using assms(2) by (auto simp add: except_clauses_def split: if_splits)
  ultimately show ?thesis
    using assms prints
    by (cases p)
      (simp_all add: get_scraping_result_def bind_exn_def provide_scraping_result_dict_def)
qed

text \<open>
  A host that cannot be reached, with a standard output that accepts every line and
  with one that is closed.
\<close>

theorem exceptions_reported_in_band_witness:
  "fst (scraping_steps unreachable_host ''u'' world0)
     = Inl (OtherException ''unreachable host'') \<and>
   fst (get_scraping_result unreachable_host ''u'' True 1 1 world0) =
     Inr [(''web_url'', PStr ''u''),
          (''is_gambling_site'', PBool True),
          (''is_error'', PBool True),
          (''scraped_elements'', PNone),
          (''scraping_initiation_time'', PDatetime 50),
          (''exception_raised'', PException (OtherException ''unreachable host''))] \<and>
   fst (scraping_steps unreachable_host ''u'' closed_stdout_world)
     = Inl (OtherException ''unreachable host'') \<and>
   fst (get_scraping_result unreachable_host ''u'' True 1 1 closed_stdout_world)
     = Inl (OtherException ''I/O operation on closed file'')"
proof -
  let ?e = "OtherException ''unreachable host''"
  let ?w1 = "world0\<lparr>clock := 50, issued := [Get ''u'']\<rparr>"
  let ?w2 = "?w1\<lparr>console := [[PStr ''Error occurred: '', PException ?e]]\<rparr>"
  let ?c1 = "closed_stdout_world\<lparr>clock := 50, issued := [Get ''u'']\<rparr>"
  have steps: "scraping_steps unreachable_host ''u'' world0 = (Inl ?e, ?w1)"
    by (simp add: run_defs)
  have clauses: "except_clauses ?e ?w1 = (PException ?e, ?w2)"
    by (simp add: run_defs)
  have prints: "fst (finally_prints ''u'' 1 1 True (PException ?e) ?w2) = Inr ()"
    by (simp add: run_defs)
  have steps': "scraping_steps unreachable_host ''u'' closed_stdout_world = (Inl ?e, ?c1)"
    by (simp add: run_defs)
  have clauses': "except_clauses ?e ?c1 = (PException ?e, ?c1)"
    by (simp add: run_defs)
  have prints': "fst (finally_prints ''u'' 1 1 True (PException ?e) ?c1)
      = Inl (OtherException ''I/O operation on closed file'')"
    by (simp add: run_defs)
  from exceptions_reported_in_band [OF steps clauses, where df_row_count = 1
      and item_position = 1 and is_gambling_site = True
      and e' = "OtherException ''I/O operation on closed file''"]
    exceptions_reported_in_band [OF steps' clauses', where df_row_count = 1
      and item_position = 1 and is_gambling_site = True
      and e' = "OtherException ''I/O operation on closed file''"]
    prints prints' steps steps'
  show ?thesis
    by (simp add: world0_def)
qed

text \<open>
  With the standard output closed, the browser's exception is caught, and then the
  exception of the first \<open>print\<close> of the \<open>finally\<close> clause leaves the function.
\<close>

theorem propagation_counterexample:
  "fst (scraping_steps unreachable_host ''u'' closed_stdout_world)
     = Inl (OtherException ''unreachable host'') \<and>
   fst (get_scraping_result unreachable_host ''u'' True 1 1 closed_stdout_world)
     = Inl (OtherException ''I/O operation on closed file'') \<and>
   (\<nexists>r. fst (get_scraping_result unreachable_host ''u'' True 1 1 closed_stdout_world)
      = Inr r)"
  by (simp add: closed_stdout_report)

text \<open>
  C8. In every report returned by \<open>get_scraping_result\<close>, on the success and on the
  error path, \<open>web_url\<close> is the url given and \<open>is_gambling_site\<close> is the flag given.
\<close>

theorem url_and_flag_pass_through:
  assumes "get_scraping_result drv web_url is_gambling_site df_row_count item_position w
      = (Inr r, w')"
  shows "map_of r ''web_url'' = Some (PStr web_url) \<and>
         map_of r ''is_gambling_site'' = Some (PBool is_gambling_site)"
  using get_scraping_result_returned [OF assms]
  by (auto simp add: provide_scraping_result_dict_def)

text \<open>A page that loads, flag false; a host that cannot be reached, flag true.\<close>

theorem url_and_flag_pass_through_witness:
  "(\<exists>r. fst (get_scraping_result short_page ''u'' False 1 1 world0) = Inr r \<and>
      map_of r ''web_url'' = Some (PStr ''u'') \<and>
      map_of r ''is_gambling_site'' = Some (PBool False)) \<and>
   (\<exists>r. fst (get_scraping_result unreachable_host ''u'' True 1 1 world0) = Inr r \<and>
      map_of r ''web_url'' = Some (PStr ''u'') \<and>
      map_of r ''is_gambling_site'' = Some (PBool True))"
proof -
  let ?ok = "get_scraping_result short_page ''u'' False 1 1 world0"
  let ?failed = "get_scraping_result unreachable_host ''u'' True 1 1 world0"
  obtain r where ok: "?ok = (Inr r, snd ?ok)"
    using short_page_report(1) by (simp add: prod_eq_iff)
  obtain r' where failed: "?failed = (Inr r', snd ?failed)"
    using unreachable_host_report by (simp add: prod_eq_iff)
  from url_and_flag_pass_through [OF ok] url_and_flag_pass_through [OF failed] ok failed
  show ?thesis
    by (metis fst_conv)
qed

section \<open>The report of \<open>get_crawling_scraping_result\<close>\<close>

text \<open>
  C4, as the code has it. When the \<open>try\<close> block of
  \<open>get_crawling_scraping_result\<close> ends with \<open>NoSuchElementException\<close>, the report
  returned has \<open>is_error\<close> true, \<open>scraped_elements\<close> \<open>None\<close> and \<open>exception_raised\<close>
  equal to the string \<open>The web is not loaded\<close>.
\<close>

theorem missing_element_reported:
  assumes "fst (crawling_steps drv w) = Inl NoSuchElementException"
    and "fst (get_crawling_scraping_result drv web_url w) = Inr r"
  shows "map_of r ''is_error'' = Some (PBool True) \<and>
         map_of r ''scraped_elements'' = Some PNone \<and>
         map_of r ''exception_raised'' = Some (PStr ''The web is not loaded'')"
  using assms
  by (auto simp add: get_crawling_scraping_result_def crawling_except_clauses_def
      bind_exn_def split: prod.splits sum.splits)

text \<open>The query of the scroll height raises the missing-element exception.\<close>

theorem missing_element_reported_witness:
  "fst (crawling_steps missing_element_page world0) = Inl NoSuchElementException \<and>
   (\<exists>r. fst (get_crawling_scraping_result missing_element_page ''u'' world0) = Inr r \<and>
      map_of r ''is_error'' = Some (PBool True) \<and>
      map_of r ''scraped_elements'' = Some PNone \<and>
      map_of r ''exception_raised'' = Some (PStr ''The web is not loaded''))"
proof -
  from missing_element_crawl_report(2) obtain r where
    returned: "fst (get_crawling_scraping_result missing_element_page ''u'' world0) = Inr r"
    by simp
  from missing_element_reported [OF missing_element_crawl_report(1) returned]
    missing_element_crawl_report(1) returned
  show ?thesis
    by simp
qed

text \<open>
  There the report's \<open>exception_raised\<close> is not the string \<open>ElementNotFound\<close>.
\<close>

theorem missing_element_string_counterexample:
  "fst (crawling_steps missing_element_page world0) = Inl NoSuchElementException \<and>
   (\<exists>r. fst (get_crawling_scraping_result missing_element_page ''u'' world0) = Inr r \<and>
      map_of r ''is_error'' = Some (PBool True) \<and>
      map_of r ''exception_raised'' \<noteq> Some (PStr ''ElementNotFound''))"
  by (simp add: missing_element_crawl_report)

section \<open>\<open>is_vertical_scrollbar_present\<close>\<close>

text \<open>
  C5. When the two script evaluations return the integers \<open>scroll_height\<close> and
  \<open>viewport_height\<close>, \<open>is_vertical_scrollbar_present\<close> returns whether
  \<open>scroll_height\<close> is strictly greater than \<open>viewport_height\<close> (false when they are
  equal), and the only commands it sends to the browser are the two queries.
\<close>

theorem scrollbar_present_iff_taller:
  "execute_script drv scroll_height_script w = (Inr (JInt scroll_height), w1) \<Longrightarrow>
   execute_script drv viewport_height_script w1 = (Inr (JInt viewport_height), w2) \<Longrightarrow>
     is_vertical_scrollbar_present drv w = (Inr (viewport_height < scroll_height), w2) \<and>
     issued w2 = issued w @ [ExecuteScript scroll_height_script,
                             ExecuteScript viewport_height_script]"
  by (auto simp add: is_vertical_scrollbar_present_def bind_exn_def execute_script_def
      split: prod.splits)

text \<open>Heights 2000 and 800 give true; heights 800 and 800 give false.\<close>

theorem scrollbar_present_iff_taller_witness:
  "is_vertical_scrollbar_present long_page world0 =
     (Inr True, world0\<lparr>clock := 20, issued := [ExecuteScript scroll_height_script,
                  ExecuteScript viewport_height_script]\<rparr>) \<and>
   is_vertical_scrollbar_present short_page world0 =
     (Inr False, world0\<lparr>clock := 20, issued := [ExecuteScript scroll_height_script,
                  ExecuteScript viewport_height_script]\<rparr>)"
proof -
  let ?w1 = "world0\<lparr>clock := 10, issued := [ExecuteScript scroll_height_script]\<rparr>"
  let ?w2 = "world0\<lparr>clock := 20, issued := [ExecuteScript scroll_height_script,
                  ExecuteScript viewport_height_script]\<rparr>"
  have a: "execute_script long_page scroll_height_script world0 = (Inr (JInt 2000), ?w1)"
    by (simp add: step_defs script_defs page_defs)
  have b: "execute_script long_page viewport_height_script ?w1 = (Inr (JInt 800), ?w2)"
    by (simp add: step_defs script_defs page_defs)
  have c: "execute_script short_page scroll_height_script world0 = (Inr (JInt 800), ?w1)"
    by (simp add: step_defs script_defs page_defs)
  have d: "execute_script short_page viewport_height_script ?w1 = (Inr (JInt 800), ?w2)"
    by (simp add: step_defs script_defs page_defs)
  from scrollbar_present_iff_taller [OF a b] scrollbar_present_iff_taller [OF c d]
  show ?thesis
    by simp
qed

section \<open>\<open>wait_until_page_ready\<close>\<close>




section \<open>The scroll to the bottom\<close>

text \<open>
  C7. In every fetch that returns a report of success (\<open>is_error\<close> false), the page is
  loaded, then \<open>is_vertical_scrollbar_present\<close> reports some answer, and the script
  that scrolls to the bottom is sent to the browser exactly once during the fetch
  when the answer is true and not at all when it is false; in both cases the report
  carries the page source.
\<close>

theorem scroll_issued_once_iff_scrollbar_present:
  assumes "get_scraping_result drv web_url is_gambling_site df_row_count item_position w
      = (Inr r, w')"
    and "map_of r ''is_error'' = Some (PBool False)"
  shows "\<exists>w3 present w4.
     bind_exn (get drv web_url) (\<lambda>_.
       bind_exn (wait_until_page_ready drv) (\<lambda>_. time_sleep 5000)) w = (Inr (), w3) \<and>
     is_vertical_scrollbar_present drv w3 = (Inr present, w4) \<and>
     count_list (issued w') (ExecuteScript scroll_to_bottom_script) =
     count_list (issued w) (ExecuteScript scroll_to_bottom_script) +
       (if present then 1 else 0) \<and>
     (\<exists>html. map_of r ''scraped_elements'' = Some (PStr html))"
proof -
  let ?scroll = "ExecuteScript scroll_to_bottom_script"
  from get_scraping_result_returned [OF assms(1)] assms(2)
  obtain source where ok: "fst (scraping_steps drv web_url w) = Inr source"
    and report: "r = provide_scraping_result_dict web_url is_gambling_site False
      (PStr source) (clock w') PNone"
    by (auto simp add: provide_scraping_result_dict_def)
  obtain w7 where steps7: "scraping_steps drv web_url w = (Inr source, w7)"
    using ok by (cases "scraping_steps drv web_url w") simp
  have same: "issued w' = issued w7"
    using get_scraping_result_keeps(2) [of drv web_url is_gambling_site df_row_count
        item_position w] assms(1) steps7
    by simp
  from steps7 obtain w1 w2 w3 present w4 v w5 w6 where
    steps: "get drv web_url w = (Inr (), w1)"
      "wait_until_page_ready drv w1 = (Inr (), w2)"
      "time_sleep 5000 w2 = (Inr (), w3)"
      "is_vertical_scrollbar_present drv w3 = (Inr present, w4)"
      "(if present then execute_script drv scroll_to_bottom_script
        else (\<lambda>w. (Inr JNone, w))) w4 = (Inr v, w5)"
      "time_sleep 5000 w5 = (Inr (), w6)"
      "page_source drv w6 = (Inr source, w7)"
    by (rule scraping_steps_success)
  have loaded: "bind_exn (get drv web_url) (\<lambda>_.
       bind_exn (wait_until_page_ready drv) (\<lambda>_. time_sleep 5000)) w = (Inr (), w3)"
    using steps(1-3) by (simp add: bind_exn_def)
  have c1: "count_list (issued w1) ?scroll = count_list (issued w) ?scroll"
    using sends_only_count [OF sends_only_get [of web_url w drv], of ?scroll] steps(1)
    by simp
  have c2: "count_list (issued w2) ?scroll = count_list (issued w1) ?scroll"
    using sends_only_count [OF sends_only_wait [of w1 drv], of ?scroll] steps(2)
    by (simp add: script_defs)
  have c3: "issued w3 = issued w2"
    using steps(3) by (auto simp add: time_sleep_def)
  have c4: "count_list (issued w4) ?scroll = count_list (issued w3) ?scroll"
    using sends_only_count [OF sends_only_scrollbar [of w3 drv], of ?scroll] steps(4)
    by (simp add: script_defs)
  have c5: "count_list (issued w5) ?scroll
      = count_list (issued w4) ?scroll + (if present then 1 else 0)"
    using steps(5) by (cases present) (auto simp add: execute_script_def split: prod.splits)
  have c6: "issued w6 = issued w5"
    using steps(6) by (auto simp add: time_sleep_def)
  have c7: "count_list (issued w7) ?scroll = count_list (issued w6) ?scroll"
    using sends_only_count [OF sends_only_page_source [of w6 drv], of ?scroll] steps(7)
    by simp
  have "count_list (issued w') ?scroll
      = count_list (issued w) ?scroll + (if present then 1 else 0)"
    using c1 c2 c3 c4 c5 c6 c7 same by simp
  with loaded steps(4) report show ?thesis
    by (auto simp add: provide_scraping_result_dict_def)
qed

text \<open>
  Heights 2000 and 800: one scroll. Heights 800 and 800: no scroll.
\<close>

theorem scroll_issued_once_iff_scrollbar_present_witness:
  "(\<exists>r. fst (get_scraping_result long_page ''u'' True 1 1 world0) = Inr r \<and>
      map_of r ''is_error'' = Some (PBool False)) \<and>
   fst (is_vertical_scrollbar_present long_page
     (world0\<lparr>clock := 5110, issued := [Get ''u'', ExecuteScript ready_state_script],
        browser := 1\<rparr>)) = Inr True \<and>
   count_list (issued (snd (get_scraping_result long_page ''u'' True 1 1 world0)))
     (ExecuteScript scroll_to_bottom_script) = 1 \<and>
   (\<exists>r. fst (get_scraping_result short_page ''u'' False 1 1 world0) = Inr r \<and>
      map_of r ''is_error'' = Some (PBool False)) \<and>
   fst (is_vertical_scrollbar_present short_page
     (world0\<lparr>clock := 5110, issued := [Get ''u'', ExecuteScript ready_state_script],
        browser := 1\<rparr>)) = Inr False \<and>
   count_list (issued (snd (get_scraping_result short_page ''u'' False 1 1 world0)))
     (ExecuteScript scroll_to_bottom_script) = 0"
proof -
  let ?w3 = "world0\<lparr>clock := 5110, issued := [Get ''u'', ExecuteScript ready_state_script],
      browser := 1\<rparr>"
  let ?long = "get_scraping_result long_page ''u'' True 1 1 world0"
  let ?short = "get_scraping_result short_page ''u'' False 1 1 world0"
  obtain r where long_returned: "?long = (Inr r, snd ?long)"
    and long_ok: "map_of r ''is_error'' = Some (PBool False)"
    using long_page_report(1) by (simp add: prod_eq_iff)
  obtain r' where short_returned: "?short = (Inr r', snd ?short)"
    and short_ok: "map_of r' ''is_error'' = Some (PBool False)"
    using short_page_report(1) by (simp add: prod_eq_iff)
  have long_loaded: "bind_exn (get long_page ''u'') (\<lambda>_.
       bind_exn (wait_until_page_ready long_page) (\<lambda>_. time_sleep 5000)) world0
      = (Inr (), ?w3)"
    by (simp add: step_defs script_defs page_defs until_ready.simps)
  have short_loaded: "bind_exn (get short_page ''u'') (\<lambda>_.
       bind_exn (wait_until_page_ready short_page) (\<lambda>_. time_sleep 5000)) world0
      = (Inr (), ?w3)"
    by (simp add: step_defs script_defs page_defs until_ready.simps)
  have long_bar: "fst (is_vertical_scrollbar_present long_page ?w3) = Inr True"
    by (simp add: step_defs script_defs page_defs)
  have short_bar: "fst (is_vertical_scrollbar_present short_page ?w3) = Inr False"
    by (simp add: step_defs script_defs page_defs)
  from scroll_issued_once_iff_scrollbar_present [OF long_returned long_ok]
    long_loaded long_bar
  have "count_list (issued (snd ?long)) (ExecuteScript scroll_to_bottom_script) = 1"
    by (auto simp add: world0_def)
  moreover
  from scroll_issued_once_iff_scrollbar_present [OF short_returned short_ok]
    short_loaded short_bar
  have "count_list (issued (snd ?short)) (ExecuteScript scroll_to_bottom_script) = 0"
    by (auto simp add: world0_def)
  ultimately show ?thesis
    using long_returned long_ok short_returned short_ok long_bar short_bar
    by (metis fst_conv)
qed

section \<open>The timestamp\<close>

text \<open>
  C9. In every report returned by \<open>get_scraping_result\<close>, the value under
  \<open>scraping_initiation_time\<close> is the clock read in the \<open>finally\<close> clause, which shows
  the time the \<open>try\<close> block ended, that is after the page source was retrieved or
  after the exception: it is never earlier than the clock at the start of the call,
  and on success it is at least the two pauses of five seconds later.
\<close>

theorem timestamp_read_at_completion:
  assumes "get_scraping_result drv web_url is_gambling_site df_row_count item_position w
      = (Inr r, w')"
  shows "map_of r ''scraping_initiation_time'' = Some (PDatetime (clock w')) \<and>
         clock w' = clock (snd (scraping_steps drv web_url w)) \<and>
         clock w \<le> clock w' \<and>
         (map_of r ''is_error'' = Some (PBool False) \<longrightarrow> clock w + 10000 \<le> clock w')"
proof (intro conjI impI)
  show "map_of r ''scraping_initiation_time'' = Some (PDatetime (clock w'))"
    using get_scraping_result_returned [OF assms]
    by (auto simp add: provide_scraping_result_dict_def)
  show same: "clock w' = clock (snd (scraping_steps drv web_url w))"
    using get_scraping_result_keeps(1) [of drv web_url is_gambling_site df_row_count
        item_position w] assms
    by simp
  show "clock w \<le> clock w'"
    using same clock_scraping_steps [of w drv web_url] by simp
  assume "map_of r ''is_error'' = Some (PBool False)"
  with get_scraping_result_returned [OF assms]
  obtain source where "fst (scraping_steps drv web_url w) = Inr source"
    by (auto simp add: provide_scraping_result_dict_def)
  then obtain w7 where ok: "scraping_steps drv web_url w = (Inr source, w7)"
    by (cases "scraping_steps drv web_url w") simp
  from ok obtain w1 w2 w3 present w4 v w5 w6 where
    steps: "get drv web_url w = (Inr (), w1)"
      "wait_until_page_ready drv w1 = (Inr (), w2)"
      "time_sleep 5000 w2 = (Inr (), w3)"
      "is_vertical_scrollbar_present drv w3 = (Inr present, w4)"
      "(if present then execute_script drv scroll_to_bottom_script
        else (\<lambda>w. (Inr JNone, w))) w4 = (Inr v, w5)"
      "time_sleep 5000 w5 = (Inr (), w6)"
      "page_source drv w6 = (Inr source, w7)"
    by (rule scraping_steps_success)
  have "clock w \<le> clock w1"
    using clock_get [of w drv web_url] steps(1) by simp
  moreover have "clock w1 \<le> clock w2"
    using clock_wait [of w1 drv] steps(2) by simp
  moreover have "clock w3 = clock w2 + 5000"
    using steps(3) by (auto simp add: time_sleep_def)
  moreover have "clock w3 \<le> clock w4"
    using clock_scrollbar [of w3 drv] steps(4) by simp
  moreover have "clock w4 \<le> clock w5"
    using clock_execute_script [of w4 drv scroll_to_bottom_script] steps(5)
    by (cases present) auto
  moreover have "clock w6 = clock w5 + 5000"
    using steps(6) by (auto simp add: time_sleep_def)
  moreover have "clock w6 \<le> clock w7"
    using clock_page_source [of w6 drv] steps(7) by simp
  ultimately show "clock w + 10000 \<le> clock w'"
    using ok same by simp
qed

text \<open>A fetch started at time 0 that succeeds is stamped 10140.\<close>

theorem timestamp_read_at_completion_witness:
  "(\<exists>r. fst (get_scraping_result short_page ''u'' False 1 1 world0) = Inr r \<and>
      map_of r ''is_error'' = Some (PBool False) \<and>
      map_of r ''scraping_initiation_time'' = Some (PDatetime 10140)) \<and>
   clock (snd (scraping_steps short_page ''u'' world0)) = 10140 \<and>
   clock world0 + 10000 \<le> clock (snd (get_scraping_result short_page ''u'' False 1 1 world0))"
proof -
  let ?short = "get_scraping_result short_page ''u'' False 1 1 world0"
  obtain r where returned: "?short = (Inr r, snd ?short)"
    and ok: "map_of r ''is_error'' = Some (PBool False)"
    using short_page_report(1) by (simp add: prod_eq_iff)
  from timestamp_read_at_completion [OF returned] ok short_page_report(2) returned
  show ?thesis
    by (metis fst_conv)
qed

section \<open>The crawling variant sends no navigation\<close>

text \<open>
  C10. \<open>get_crawling_scraping_result\<close> sends the browser only queries of the
  ready-state, the two height queries, the scroll script and the retrieval of the page
  source, and no \<open>get\<close> of any url; a report it returns has exactly the keys
  \<open>web_url\<close>, \<open>is_error\<close>, \<open>scraped_elements\<close>, \<open>scraping_initiation_time\<close> and
  \<open>exception_raised\<close>, so no \<open>is_gambling_site\<close>.
\<close>

theorem crawling_never_navigates:
  "(\<exists>cmds.
      issued (snd (get_crawling_scraping_result drv web_url w)) = issued w @ cmds \<and>
      set cmds \<subseteq>
        {ExecuteScript ready_state_script, ExecuteScript scroll_height_script,
         ExecuteScript viewport_height_script, ExecuteScript scroll_to_bottom_script,
         PageSource} \<and>
      (\<forall>url. Get url \<notin> set cmds)) \<and>
   (\<forall>r. fst (get_crawling_scraping_result drv web_url w) = Inr r \<longrightarrow>
      map fst r =
        [''web_url'', ''is_error'', ''scraped_elements'', ''scraping_initiation_time'',
         ''exception_raised''])"
proof (rule conjI)
  from sends_only_crawling_steps [of w drv] obtain cmds where
    grown: "issued (snd (crawling_steps drv w)) = issued w @ cmds" and
    among: "set cmds \<subseteq>
       {ExecuteScript ready_state_script, ExecuteScript scroll_height_script,
        ExecuteScript viewport_height_script, ExecuteScript scroll_to_bottom_script,
        PageSource}"
    unfolding sends_only_def by blast
  from among have "\<forall>url. Get url \<notin> set cmds"
    by auto
  with grown among get_crawling_scraping_result_keeps [of drv web_url w]
  show "\<exists>cmds.
      issued (snd (get_crawling_scraping_result drv web_url w)) = issued w @ cmds \<and>
      set cmds \<subseteq>
        {ExecuteScript ready_state_script, ExecuteScript scroll_height_script,
         ExecuteScript viewport_height_script, ExecuteScript scroll_to_bottom_script,
         PageSource} \<and>
      (\<forall>url. Get url \<notin> set cmds)"
    by auto
next
  show "\<forall>r. fst (get_crawling_scraping_result drv web_url w) = Inr r \<longrightarrow>
      map fst r =
        [''web_url'', ''is_error'', ''scraped_elements'', ''scraping_initiation_time'',
         ''exception_raised'']"
    by (auto simp add: get_crawling_scraping_result_def bind_exn_def
        split: prod.splits sum.splits)
qed

text \<open>
  The crawl of the page whose first query of the ready-state raises: five commands,
  none of them a navigation, and a report with the five keys.
\<close>

theorem crawling_never_navigates_witness:
  "issued (snd (get_crawling_scraping_result flaky_page ''u'' world0)) =
     [ExecuteScript ready_state_script, ExecuteScript ready_state_script,
      ExecuteScript scroll_height_script, ExecuteScript viewport_height_script,
      PageSource] \<and>
   (\<exists>r. fst (get_crawling_scraping_result flaky_page ''u'' world0) = Inr r \<and>
      map fst r =
        [''web_url'', ''is_error'', ''scraped_elements'', ''scraping_initiation_time'',
         ''exception_raised''])"
proof -
  from flaky_page_crawl_report(1) obtain r where
    returned: "fst (get_crawling_scraping_result flaky_page ''u'' world0) = Inr r"
    by simp
  from crawling_never_navigates [of flaky_page "''u''" world0] returned
  have "map fst r =
        [''web_url'', ''is_error'', ''scraped_elements'', ''scraping_initiation_time'',
         ''exception_raised'']"
    by blast
  with returned flaky_page_crawl_report(2) show ?thesis
    by simp
qed

end
